theory Spec2Isabelle
  imports Complex_Main "HOL-Library.Multiset" "HOL-Library.Product_Lexorder"
begin

section \<open>Data model of \<open>generate_test_data.py\<close>\<close>

text \<open>
  The script builds profile events as nested dictionaries, posts each one to an HTTP
  endpoint and prints statistics. Python integers are \<open>int\<close>, strings are \<open>string\<close>,
  a dictionary with a fixed set of keys is a record, and a dictionary used as a counter is
  an association list in insertion order (the order Python iterates it in).
\<close>

datatype error = ValueError | IndexError | ZeroDivisionError

record config =
  API_URL :: string
  API_KEY :: string
  NUM_EVENTS :: int
  NUM_UNIQUE_IDCARDS :: int
  BATCH_SIZE :: int
  SAVE_TO_FILE :: bool
  SHOW_PROGRESS :: bool

text \<open>
  The two timestamps of an event are written by \<open>strftime("%Y-%m-%dT%H:%M:%S.000Z")\<close>,
  which prints the calendar fields of the datetime down to the second and drops the
  microseconds. A datetime is modelled as its number of microseconds on the time line, and
  the printed timestamp as the number of whole seconds it denotes.
\<close>

type_synonym datetime = int
type_synonym timestamp = int

record traits =
  full_name :: string
  first_name :: string
  last_name :: string
  idcard :: string
  old_idcard :: string
  phone :: string
  email :: string
  gender :: string
  dob :: string
  address :: string
  religion :: string

record platforms =
  os :: string
  device :: string
  browser :: string
  app_version :: string

record campaign =
  utm_source :: string
  utm_campaign :: string
  utm_medium :: string

record metadata =
  first_seen_at :: timestamp
  last_seen_at :: timestamp
  registration_source :: string
  user_agent :: string
  login_count :: int

record event =
  type :: string
  user_id :: string
  traits :: traits
  platforms :: platforms
  campaign :: campaign
  metadata :: metadata

text \<open>
  An outcome dictionary has the keys \<open>index\<close>, \<open>status_code\<close>, \<open>success\<close>, \<open>idcard\<close> and
  \<open>type\<close> on both paths of \<open>send_event\<close>; \<open>response\<close> exists only on the path where the
  call returned (and may hold \<open>None\<close>), \<open>error\<close> only on the path where it raised.
\<close>

datatype 'a entry = Absent | Present 'a

record outcome =
  index :: int
  status_code :: int
  success :: bool
  r_idcard :: string
  r_type :: string
  response :: "string option entry"
  error :: "string entry"

section \<open>The HTTP call\<close>

text \<open>
  \<open>requests.post\<close> either returns a response (status code and body text) or raises; the
  text of the exception is what \<open>str(e)\<close> gives. The network is outside the script: it is a
  parameter, a function of the request and of the state of the world that also returns
  the world after the call.
\<close>

datatype http_result = Response int string | Raised string

type_synonym 'w transport =
  "string \<Rightarrow> (string \<times> string) list \<Rightarrow> event \<Rightarrow> 'w \<Rightarrow> http_result \<times> 'w"

definition send_event :: "'w transport \<Rightarrow> event \<Rightarrow> int \<Rightarrow> config \<Rightarrow> 'w \<Rightarrow> outcome \<times> 'w" where
  "send_event post ev i cfg w =
     (let headers = [(''Content-Type'', ''application/json''), (''X-API-Key'', API_KEY cfg)]
      in case post (API_URL cfg) headers ev w of
           (Response code body, w') \<Rightarrow>
             (\<lparr>index = i,
               status_code = code,
               success = (code \<in> set [200, 201]),
               r_idcard = idcard (traits ev),
               r_type = type ev,
               response = Present (if code \<ge> 400 then Some (take 200 body) else None),
               error = Absent\<rparr>, w')
         | (Raised msg, w') \<Rightarrow>
             (\<lparr>index = i,
               status_code = 0,
               success = False,
               r_idcard = idcard (traits ev),
               r_type = type ev,
               response = Absent,
               error = Present msg\<rparr>, w'))"

section \<open>Pseudo-random draws\<close>

text \<open>
  The script draws from the global generator of the \<open>random\<close> module, and the identity
  pools from Faker's own generator. A generator is modelled by the entropy it will hand
  out: a tape of naturals read from the left, continued by zeros. Every finite run of
  the script reads finitely many values, so every behaviour of the generator is the
  behaviour of some tape.
\<close>

type_synonym rng = "nat list"

fun draw :: "rng \<Rightarrow> nat \<times> rng" where
  "draw [] = (0, [])"
| "draw (r # rs) = (r, rs)"

text \<open>
  \<open>rand_in a b\<close> is a value of \<open>a..b\<close> (both ends included) for \<open>a \<le> b\<close>. \<open>randint\<close>
  is \<open>random.randint\<close>, which raises \<open>ValueError\<close> on an empty range; where the source
  calls it with constant bounds \<open>a \<le> b\<close> the model uses \<open>rand_in\<close>. \<open>choice\<close> is
  \<open>random.choice\<close> on the non-empty constant pools of the script, and \<open>random_int\<close> is
  Faker's \<open>random_int(min, max)\<close>, again with both ends included.
\<close>

definition rand_in :: "int \<Rightarrow> int \<Rightarrow> rng \<Rightarrow> int \<times> rng" where
  "rand_in a b g = (case draw g of (r, g') \<Rightarrow> (a + int r mod (b - a + 1), g'))"

definition randint :: "int \<Rightarrow> int \<Rightarrow> rng \<Rightarrow> error + (int \<times> rng)" where
  "randint a b g = (if b < a then Inl ValueError else Inr (rand_in a b g))"

definition choice :: "'a list \<Rightarrow> rng \<Rightarrow> 'a \<times> rng" where
  "choice xs g = (case draw g of (r, g') \<Rightarrow> (xs ! (r mod length xs), g'))"

definition random_int :: "int \<Rightarrow> int \<Rightarrow> rng \<Rightarrow> int \<times> rng" where
  "random_int lo hi g = rand_in lo hi g"

section \<open>Strings of integers\<close>

function str_nat :: "nat \<Rightarrow> string" where
  "str_nat n =
     (if n < 10 then [''0123456789'' ! n]
      else str_nat (n div 10) @ [''0123456789'' ! (n mod 10)])"
  by pat_completeness auto
termination
  by (relation "measure id") auto

declare str_nat.simps [simp del]

definition py_str :: "int \<Rightarrow> string" where
  "py_str i = (if i < 0 then CHR ''-'' # str_nat (nat (- i)) else str_nat (nat i))"

text \<open>\<open>str.zfill\<close>: zeros on the left up to the width, after a leading sign.\<close>

definition zfill :: "nat \<Rightarrow> string \<Rightarrow> string" where
  "zfill width s =
     (case s of
        c # rest \<Rightarrow>
          if c = CHR ''+'' \<or> c = CHR ''-''
          then c # replicate (width - length s) CHR ''0'' @ rest
          else replicate (width - length s) CHR ''0'' @ s
      | [] \<Rightarrow> replicate width CHR ''0'')"

section \<open>The event generator\<close>

definition TYPES :: "string list" where
  "TYPES = [''login'', ''register'', ''update_profile'', ''purchase'', ''view_product'']"

definition GENDERS :: "string list" where
  "GENDERS = [''male'', ''female'', ''other'']"

definition RELIGIONS :: "string list" where
  "RELIGIONS = [''Buddhism'', ''Catholic'', ''None'', ''Protestant'', ''Other'']"

definition OS_LIST :: "string list" where
  "OS_LIST = [''Windows 10'', ''Windows 11'', ''macOS'', ''Ubuntu'', ''iOS'', ''Android'']"

definition DEVICES :: "string list" where
  "DEVICES = [''Desktop'', ''MacBook Pro'', ''iPhone 15'', ''Samsung Galaxy S24'', ''iPad'',
              ''Laptop'']"

definition BROWSERS :: "string list" where
  "BROWSERS = [''Chrome'', ''Safari'', ''Firefox'', ''Edge'', ''Opera'']"

definition UTM_SOURCES :: "string list" where
  "UTM_SOURCES = [''google'', ''facebook'', ''instagram'', ''direct'', ''email'', ''tiktok'']"

definition UTM_CAMPAIGNS :: "string list" where
  "UTM_CAMPAIGNS = [''summer_sale'', ''winter_promo'', ''none'', ''black_friday'', ''new_year'']"

definition UTM_MEDIUMS :: "string list" where
  "UTM_MEDIUMS = [''cpc'', ''organic'', ''email'', ''social'', ''referral'']"

definition REG_SOURCES :: "string list" where
  "REG_SOURCES = [''web_desktop'', ''web_mobile'', ''ios_app'', ''android_app'', ''api'']"

text \<open>
  The strings that the Faker providers return for one event are inputs of the model
  (\<open>fake_date_of_birth\<close> is the date of birth as \<open>strftime("%Y-%m-%d")\<close> prints it), and
  so is the value of \<open>datetime.now()\<close> during the call.
\<close>

record faker_out =
  fake_first_name :: string
  fake_last_name :: string
  fake_phone_number :: string
  fake_email :: string
  fake_date_of_birth :: string
  fake_address :: string
  fake_user_agent :: string

definition timedelta :: "int \<Rightarrow> int \<Rightarrow> int \<Rightarrow> int" where
  "timedelta days hours minutes = ((days * 24 + hours) * 60 + minutes) * 60 * 1000000"

definition strftime :: "datetime \<Rightarrow> timestamp" where
  "strftime t = t div 1000000"

definition generate_event ::
  "int \<Rightarrow> string list \<Rightarrow> string list \<Rightarrow> datetime \<Rightarrow> faker_out \<Rightarrow> rng \<Rightarrow> error + (event \<times> rng)" where
  "generate_event i idcard_pool old_idcard_pool now fk g0 =
     (case randint 0 (int (length idcard_pool) - 1) g0 of
        Inl e \<Rightarrow> Inl e
      | Inr (idcard_index, g1) \<Rightarrow>
          if length old_idcard_pool \<le> nat idcard_index then Inl IndexError
          else
            let idcard_v = idcard_pool ! nat idcard_index;
                old_idcard_v = old_idcard_pool ! nat idcard_index;
                (days_ago, g2) = rand_in 0 30 g1;
                (hours_ago, g3) = rand_in 0 23 g2;
                (minutes_ago, g4) = rand_in 0 59 g3;
                event_time = now - timedelta days_ago hours_ago minutes_ago;
                (first_days, g5) = rand_in 0 365 g4;
                first_seen = event_time - timedelta first_days 0 0;
                first_name_v = fake_first_name fk;
                last_name_v = fake_last_name fk;
                full_name_v = last_name_v @ '' '' @ first_name_v;
                (type_v, g6) = choice TYPES g5;
                (form, g7) = choice [''desktop'', ''mobile'', ''tablet''] g6;
                (gender_v, g8) = choice GENDERS g7;
                (religion_v, g9) = choice RELIGIONS g8;
                (os_v, g10) = choice OS_LIST g9;
                (device_v, g11) = choice DEVICES g10;
                (browser_v, g12) = choice BROWSERS g11;
                (v1, g13) = rand_in 1 3 g12;
                (v2, g14) = rand_in 0 9 g13;
                (v3, g15) = rand_in 0 9 g14;
                (utm_source_v, g16) = choice UTM_SOURCES g15;
                (utm_campaign_v, g17) = choice UTM_CAMPAIGNS g16;
                (utm_medium_v, g18) = choice UTM_MEDIUMS g17;
                (reg_v, g19) = choice REG_SOURCES g18;
                (login_v, g20) = rand_in 1 100 g19
            in Inr
                 (\<lparr>type = type_v,
                   user_id = ''user_'' @ form @ ''_'' @ zfill 5 (py_str i),
                   traits =
                     \<lparr>full_name = full_name_v,
                      first_name = first_name_v,
                      last_name = last_name_v,
                      idcard = idcard_v,
                      old_idcard = old_idcard_v,
                      phone = fake_phone_number fk,
                      email = fake_email fk,
                      gender = gender_v,
                      dob = fake_date_of_birth fk,
                      address = fake_address fk,
                      religion = religion_v\<rparr>,
                   platforms =
                     \<lparr>os = os_v,
                      device = device_v,
                      browser = browser_v,
                      app_version = py_str v1 @ ''.'' @ py_str v2 @ ''.'' @ py_str v3\<rparr>,
                   campaign =
                     \<lparr>utm_source = utm_source_v,
                      utm_campaign = utm_campaign_v,
                      utm_medium = utm_medium_v\<rparr>,
                   metadata =
                     \<lparr>first_seen_at = strftime first_seen,
                      last_seen_at = strftime event_time,
                      registration_source = reg_v,
                      user_agent = fake_user_agent fk,
                      login_count = login_v\<rparr>\<rparr>,
                  g20))"

section \<open>The pools and the events of \<open>main\<close>\<close>

text \<open>
  \<open>[f"{fake.random_int(min=lo, max=hi)}" for _ in range(n)]\<close>: one draw from Faker's
  generator per entry, printed in decimal. \<open>range(n)\<close> is empty for \<open>n \<le> 0\<close>.
\<close>

fun make_pool :: "nat \<Rightarrow> int \<Rightarrow> int \<Rightarrow> rng \<Rightarrow> string list \<times> rng" where
  "make_pool 0 lo hi g = ([], g)"
| "make_pool (Suc n) lo hi g =
     (case random_int lo hi g of
        (v, g') \<Rightarrow> (case make_pool n lo hi g' of (rest, g'') \<Rightarrow> (py_str v # rest, g'')))"

definition make_idcard_pool :: "config \<Rightarrow> rng \<Rightarrow> string list \<times> rng" where
  "make_idcard_pool cfg g = make_pool (nat (NUM_UNIQUE_IDCARDS cfg)) 100000000000 100000000095 g"

definition make_old_idcard_pool :: "config \<Rightarrow> rng \<Rightarrow> string list \<times> rng" where
  "make_old_idcard_pool cfg g = make_pool (nat (NUM_UNIQUE_IDCARDS cfg)) 100000000 999999999 g"



section \<open>Sequential sending\<close>

text \<open>
  \<open>enumerate(events, 1)\<close> pairs each event with its position, counted from the start
  value. \<open>tqdm\<close> wraps an iterable in a progress bar and yields its items unchanged.
  The pause after each send changes nothing the script computes.
\<close>

fun enumerate_from :: "int \<Rightarrow> 'a list \<Rightarrow> (int \<times> 'a) list" where
  "enumerate_from start [] = []"
| "enumerate_from start (x # xs) = (start, x) # enumerate_from (start + 1) xs"

definition tqdm :: "'a list \<Rightarrow> 'a list" where
  "tqdm iterable = iterable"

fun send_loop ::
  "'w transport \<Rightarrow> config \<Rightarrow> (int \<times> event) list \<Rightarrow> outcome list \<Rightarrow> 'w \<Rightarrow> outcome list \<times> 'w" where
  "send_loop post cfg [] results w = (results, w)"
| "send_loop post cfg ((i, ev) # rest) results w =
     (case send_event post ev i cfg w of
        (result, w') \<Rightarrow> send_loop post cfg rest (results @ [result]) w')"

definition send_events_sequential ::
  "'w transport \<Rightarrow> event list \<Rightarrow> config \<Rightarrow> 'w \<Rightarrow> outcome list \<times> 'w" where
  "send_events_sequential post events cfg w =
     (let iterator = (if SHOW_PROGRESS cfg then tqdm (enumerate_from 1 events) else enumerate_from 1 events)
      in send_loop post cfg iterator [] w)"

section \<open>Statistics\<close>

text \<open>
  A counting dictionary is an association list in insertion order: \<open>dict_get\<close> is
  \<open>d.get(k, default)\<close>, \<open>dict_set\<close> is \<open>d[k] = v\<close> (an existing key keeps its place, a new
  one goes last), and \<open>count_keys\<close> is the loop
  \<open>for k in ks: d[k] = d.get(k, 0) + 1\<close>.
\<close>

fun dict_get :: "('k \<times> 'v) list \<Rightarrow> 'k \<Rightarrow> 'v \<Rightarrow> 'v" where
  "dict_get [] k d = d"
| "dict_get ((k', v) # kvs) k d = (if k' = k then v else dict_get kvs k d)"

fun dict_set :: "('k \<times> 'v) list \<Rightarrow> 'k \<Rightarrow> 'v \<Rightarrow> ('k \<times> 'v) list" where
  "dict_set [] k v = [(k, v)]"
| "dict_set ((k', v') # kvs) k v =
     (if k' = k then (k', v) # kvs else (k', v') # dict_set kvs k v)"

fun count_keys :: "('k \<times> nat) list \<Rightarrow> 'k list \<Rightarrow> ('k \<times> nat) list" where
  "count_keys d [] = d"
| "count_keys d (k # ks) = count_keys (dict_set d k (dict_get d k 0 + 1)) ks"

text \<open>
  \<open>sorted(items, key=lambda x: x[1], reverse=True)\<close>: the list is reversed, sorted
  stably by ascending key and reversed again, so equal counts keep their order.
\<close>

definition sorted_by_count_desc :: "('k \<times> nat) list \<Rightarrow> ('k \<times> nat) list" where
  "sorted_by_count_desc items = rev (sort_key snd (rev items))"

text \<open>
  A percentage is \<open>count / len(results) * 100\<close>, which raises \<open>ZeroDivisionError\<close> when
  there are no results. The quotient is a float in the source; the model keeps the exact
  ratio.
\<close>

definition percent :: "nat \<Rightarrow> nat \<Rightarrow> error + rat" where
  "percent c n = (if n = 0 then Inl ZeroDivisionError else Inr (of_nat c / of_nat n * 100))"

text \<open>
  \<open>r.get('error') or r.get('response', 'Unknown error')\<close>: a missing or empty error text
  gives way to the response entry, which may hold \<open>None\<close>.
\<close>

definition error_msg :: "outcome \<Rightarrow> string option" where
  "error_msg r =
     (let fallback = (case response r of Absent \<Rightarrow> Some ''Unknown error'' | Present v \<Rightarrow> v)
      in case error r of
           Present e \<Rightarrow> if e \<noteq> [] then Some e else fallback
         | Absent \<Rightarrow> fallback)"

text \<open>
  The report is what \<open>print_statistics\<close> prints: the counts, the status code lines in
  ascending order, the event type lines by descending count, the three numbers of the
  merge block, the block of the most frequent identities (printed only when some identity
  has duplicates) and the block of failed requests (printed only when a send failed).
\<close>

record report =
  success_count :: nat
  failed_count :: nat
  success_percent :: rat
  failed_percent :: rat
  status_code_lines :: "(int \<times> nat) list"
  event_type_lines :: "(string \<times> nat) list"
  unique_idcards :: nat
  idcards_with_duplicates :: nat
  merge_total :: nat
  top_idcards :: "(string \<times> nat) list option"
  failed_lines :: "(int \<times> string \<times> string option) list option"

definition print_statistics :: "outcome list \<Rightarrow> event list \<Rightarrow> error + report" where
  "print_statistics results events =
     (let success_count_v = length (filter success results);
          failed_count_v = length results - success_count_v;
          status_codes = count_keys [] (map status_code results);
          type_dist = count_keys [] (map type events);
          idcard_count = count_keys [] (map (\<lambda>e. idcard (traits e)) events);
          duplicate_idcards = filter (\<lambda>(k, v). v > 1) idcard_count
      in case percent success_count_v (length results) of
           Inl e \<Rightarrow> Inl e
         | Inr sp \<Rightarrow>
             (case percent failed_count_v (length results) of
                Inl e \<Rightarrow> Inl e
              | Inr fp \<Rightarrow>
                  Inr \<lparr>success_count = success_count_v,
                       failed_count = failed_count_v,
                       success_percent = sp,
                       failed_percent = fp,
                       status_code_lines = sort status_codes,
                       event_type_lines = sorted_by_count_desc type_dist,
                       unique_idcards = length idcard_count,
                       idcards_with_duplicates = length duplicate_idcards,
                       merge_total = sum_list (map snd duplicate_idcards),
                       top_idcards =
                         (if duplicate_idcards \<noteq> []
                          then Some (take 10 (sorted_by_count_desc duplicate_idcards))
                          else None),
                       failed_lines =
                         (if failed_count_v > 0
                          then Some (map (\<lambda>r. (index r, take 10 (r_idcard r), error_msg r))
                                       (take 10 (filter (\<lambda>r. \<not> success r) results)))
                          else None)\<rparr>))"

section \<open>Defaults and sample inputs\<close>

text \<open>The class attributes of \<open>Config\<close> (the delay between batches is never read).\<close>

definition Config :: config where
  "Config =
     \<lparr>API_URL = ''http://localhost:8080/v1/profiles/track'',
      API_KEY = ''cdp_demo_demo'',
      NUM_EVENTS = 1000,
      NUM_UNIQUE_IDCARDS = 700,
      BATCH_SIZE = 50,
      SAVE_TO_FILE = True,
      SHOW_PROGRESS = True\<rparr>"

text \<open>
  A mock server for concrete runs: the world is the list of answers still to be given, and
  a call on an exhausted list is refused.
\<close>

definition canned :: "http_result list transport" where
  "canned url headers ev w =
     (case w of [] \<Rightarrow> (Raised ''Connection refused'', []) | r # rs \<Rightarrow> (r, rs))"

definition fixed_clock :: "int \<Rightarrow> datetime" where
  "fixed_clock i = 1762214400000000"

definition fixed_fakes :: "int \<Rightarrow> faker_out" where
  "fixed_fakes i =
     \<lparr>fake_first_name = ''An'',
      fake_last_name = ''Nguyen'',
      fake_phone_number = ''0900000000'',
      fake_email = ''an@example.org'',
      fake_date_of_birth = ''1990-01-01'',
      fake_address = ''Ha Noi'',
      fake_user_agent = ''Mozilla/5.0''\<rparr>"

definition event_with :: "string \<Rightarrow> string \<Rightarrow> event" where
  "event_with t k =
     \<lparr>type = t,
      user_id = ''user_desktop_00001'',
      traits =
        \<lparr>full_name = ''Nguyen An'', first_name = ''An'', last_name = ''Nguyen'',
         idcard = k, old_idcard = ''100000000'', phone = ''0900000000'',
         email = ''an@example.org'', gender = ''other'', dob = ''1990-01-01'',
         address = ''Ha Noi'', religion = ''None''\<rparr>,
      platforms =
        \<lparr>os = ''Ubuntu'', device = ''Laptop'', browser = ''Firefox'', app_version = ''1.0.0''\<rparr>,
      campaign =
        \<lparr>utm_source = ''direct'', utm_campaign = ''none'', utm_medium = ''organic''\<rparr>,
      metadata =
        \<lparr>first_seen_at = 1730678400, last_seen_at = 1762214400,
         registration_source = ''api'', user_agent = ''Mozilla/5.0'', login_count = 1\<rparr>\<rparr>"


section \<open>Properties of sending\<close>

lemma send_loop_acc:
  "send_loop post cfg its acc w =
     (acc @ fst (send_loop post cfg its [] w), snd (send_loop post cfg its [] w))"
proof (induction its arbitrary: acc w)
  case Nil
  show ?case by simp
next
  case (Cons p rest)
  obtain i ev where p: "p = (i, ev)" by (cases p)
  obtain r w' where r: "send_event post ev i cfg w = (r, w')" by (cases "send_event post ev i cfg w")
  have "send_loop post cfg (p # rest) acc w = send_loop post cfg rest (acc @ [r]) w'"
    by (simp add: p r)
  also have "\<dots> = ((acc @ [r]) @ fst (send_loop post cfg rest [] w'), snd (send_loop post cfg rest [] w'))"
    by (rule Cons.IH)
  finally have lhs: "send_loop post cfg (p # rest) acc w =
      (acc @ r # fst (send_loop post cfg rest [] w'), snd (send_loop post cfg rest [] w'))"
    by simp
  have "send_loop post cfg (p # rest) [] w = send_loop post cfg rest [r] w'"
    by (simp add: p r)
  also have "\<dots> = ([r] @ fst (send_loop post cfg rest [] w'), snd (send_loop post cfg rest [] w'))"
    by (rule Cons.IH)
  finally have "send_loop post cfg (p # rest) [] w =
      (r # fst (send_loop post cfg rest [] w'), snd (send_loop post cfg rest [] w'))"
    by simp
  with lhs show ?case by simp
qed

lemma send_loop_Cons:
  "send_loop post cfg ((i, ev) # rest) [] w =
     (fst (send_event post ev i cfg w) # fst (send_loop post cfg rest [] (snd (send_event post ev i cfg w))),
      snd (send_loop post cfg rest [] (snd (send_event post ev i cfg w))))"
proof -
  obtain r w' where r: "send_event post ev i cfg w = (r, w')" by (cases "send_event post ev i cfg w")
  have "send_loop post cfg ((i, ev) # rest) [] w = send_loop post cfg rest [r] w'"
    by (simp add: r)
  also have "\<dots> = ([r] @ fst (send_loop post cfg rest [] w'), snd (send_loop post cfg rest [] w'))"
    by (rule send_loop_acc)
  finally show ?thesis by (simp add: r)
qed

lemma send_event_world:
  "snd (send_event post ev i cfg w) = snd (send_event post ev j cfg w)"
  by (simp add: send_event_def split: prod.splits http_result.splits)

lemma send_loop_world_start:
  "snd (send_loop post cfg (enumerate_from s evs) [] w) =
   snd (send_loop post cfg (enumerate_from t evs) [] w)"
proof (induction evs arbitrary: s t w)
  case Nil
  show ?case by simp
next
  case (Cons e es)
  show ?case
    using Cons.IH [of "s + 1" "snd (send_event post e s cfg w)" "t + 1"]
      send_event_world [of post e s cfg w t]
    by (simp add: send_loop_Cons del: send_loop.simps(2))
qed

lemma send_loop_length:
  "length (fst (send_loop post cfg (enumerate_from s evs) [] w)) = length evs"
  by (induction evs arbitrary: s w) (simp_all add: send_loop_Cons del: send_loop.simps(2))

lemma send_loop_nth:
  "i < length evs \<Longrightarrow>
   fst (send_loop post cfg (enumerate_from s evs) [] w) ! i =
     fst (send_event post (evs ! i) (s + int i) cfg
            (snd (send_loop post cfg (enumerate_from s (take i evs)) [] w)))"
proof (induction evs arbitrary: s w i)
  case Nil
  then show ?case by simp
next
  case (Cons e es)
  show ?case
  proof (cases i)
    case 0
    then show ?thesis by (simp add: send_loop_Cons del: send_loop.simps(2))
  next
    case (Suc j)
    with Cons.prems have j: "j < length es" by simp
    show ?thesis
      using Cons.IH [OF j, of "s + 1" "snd (send_event post e s cfg w)"]
      by (simp add: Suc send_loop_Cons add.assoc del: send_loop.simps(2))
  qed
qed


lemma send_event_echo:
  "index (fst (send_event post ev i cfg w)) = i"
  "r_idcard (fst (send_event post ev i cfg w)) = idcard (traits ev)"
  "r_type (fst (send_event post ev i cfg w)) = type ev"
  by (simp_all add: send_event_def split: prod.splits http_result.splits)

text \<open>
  Claim C1. Whenever the HTTP call of a send returns a response, the outcome carries its
  status code and the success flag is true exactly when that code is 200 or 201; any other
  code, the remaining 2xx codes included, gives \<open>success = False\<close>.
\<close>

theorem success_iff_200_or_201:
  assumes "post (API_URL cfg) [(''Content-Type'', ''application/json''), (''X-API-Key'', API_KEY cfg)]
             ev w = (Response code body, w')"
  shows "status_code (fst (send_event post ev i cfg w)) = code \<and>
         (success (fst (send_event post ev i cfg w)) \<longleftrightarrow> code = 200 \<or> code = 201)"
  using assms by (simp add: send_event_def)

theorem success_iff_200_or_201_witness:
  "canned (API_URL Config) [(''Content-Type'', ''application/json''), (''X-API-Key'', API_KEY Config)]
     (event_with ''login'' ''100000000001'') [Response 204 []] = (Response 204 [], []) \<and>
   status_code (fst (send_event canned (event_with ''login'' ''100000000001'') 1 Config
                       [Response 204 []])) = 204 \<and>
   \<not> success (fst (send_event canned (event_with ''login'' ''100000000001'') 1 Config
                       [Response 204 []]))"
proof -
  have h: "canned (API_URL Config)
             [(''Content-Type'', ''application/json''), (''X-API-Key'', API_KEY Config)]
             (event_with ''login'' ''100000000001'') [Response 204 []] = (Response 204 [], [])"
    by (simp add: canned_def)
  show ?thesis
    using h success_iff_200_or_201 [where post = canned and cfg = Config
        and ev = "event_with ''login'' ''100000000001''" and w = "[Response 204 []]"
        and code = 204 and body = "[]" and w' = "[]" and i = 1]
    by simp
qed

text \<open>
  Claim C2. When the HTTP call raises, \<open>send_event\<close> still returns an outcome: status
  code 0, \<open>success = False\<close>, the text of the fault under \<open>error\<close>, and the identity
  key and type of the event unchanged. (The handler is \<open>except Exception\<close>, the class of
  every fault \<open>requests\<close> raises.)
\<close>

theorem fault_becomes_outcome:
  assumes "post (API_URL cfg) [(''Content-Type'', ''application/json''), (''X-API-Key'', API_KEY cfg)]
             ev w = (Raised msg, w')"
  shows "fst (send_event post ev i cfg w) =
           \<lparr>index = i, status_code = 0, success = False,
            r_idcard = idcard (traits ev), r_type = type ev,
            response = Absent, error = Present msg\<rparr>"
  using assms by (simp add: send_event_def)

theorem fault_becomes_outcome_witness:
  "canned (API_URL Config) [(''Content-Type'', ''application/json''), (''X-API-Key'', API_KEY Config)]
     (event_with ''login'' ''100000000001'') [] = (Raised ''Connection refused'', []) \<and>
   fst (send_event canned (event_with ''login'' ''100000000001'') 7 Config []) =
     \<lparr>index = 7, status_code = 0, success = False,
      r_idcard = ''100000000001'', r_type = ''login'',
      response = Absent, error = Present ''Connection refused''\<rparr>"
proof -
  have h: "canned (API_URL Config)
             [(''Content-Type'', ''application/json''), (''X-API-Key'', API_KEY Config)]
             (event_with ''login'' ''100000000001'') [] = (Raised ''Connection refused'', [])"
    by (simp add: canned_def)
  show ?thesis
    using h fault_becomes_outcome [where post = canned and cfg = Config
        and ev = "event_with ''login'' ''100000000001''" and w = "[]"
        and msg = "''Connection refused''" and w' = "[]" and i = 7]
    by (simp add: event_with_def)
qed

text \<open>
  Claim C4, as the code has it. The body is kept from status 400 upwards: for a response
  with status code at least 400 the \<open>response\<close> entry holds the first 200 characters of
  the body, and for every status code below 400 it holds \<open>None\<close>.
\<close>

theorem response_kept_from_400:
  assumes "post (API_URL cfg) [(''Content-Type'', ''application/json''), (''X-API-Key'', API_KEY cfg)]
             ev w = (Response code body, w')"
  shows "response (fst (send_event post ev i cfg w)) =
           (if 400 \<le> code then Present (Some (take 200 body)) else Present None)"
  using assms by (simp add: send_event_def)

theorem response_kept_from_400_witness:
  "canned (API_URL Config) [(''Content-Type'', ''application/json''), (''X-API-Key'', API_KEY Config)]
     (event_with ''login'' ''100000000001'') [Response 404 ''Not Found''] =
     (Response 404 ''Not Found'', []) \<and>
   response (fst (send_event canned (event_with ''login'' ''100000000001'') 1 Config
                    [Response 404 ''Not Found''])) = Present (Some ''Not Found'')"
proof -
  have h: "canned (API_URL Config)
             [(''Content-Type'', ''application/json''), (''X-API-Key'', API_KEY Config)]
             (event_with ''login'' ''100000000001'') [Response 404 ''Not Found''] =
           (Response 404 ''Not Found'', [])"
    by (simp add: canned_def)
  show ?thesis
    using h response_kept_from_400 [where post = canned and cfg = Config
        and ev = "event_with ''login'' ''100000000001''" and w = "[Response 404 ''Not Found'']"
        and code = 404 and body = "''Not Found''" and w' = "[]" and i = 1]
    by simp
qed

text \<open>
  A redirect is not a 2xx response, yet its body is dropped: the claim as stated fails at
  status 302.
\<close>

theorem response_not_2xx_counterexample:
  "\<not> (200 \<le> (302::int) \<and> (302::int) < 300) \<and>
   response (fst (send_event canned (event_with ''login'' ''100000000001'') 1 Config
                    [Response 302 ''Found''])) = Present None \<and>
   response (fst (send_event canned (event_with ''login'' ''100000000001'') 1 Config
                    [Response 302 ''Found''])) \<noteq> Present (Some (take 200 ''Found''))"
  by (simp add: send_event_def canned_def)

text \<open>
  Claim C6. Sequential sending returns one outcome per event, and outcome number \<open>i\<close>
  (counted from 0 in the list) is the outcome of sending event number \<open>i\<close> with index
  \<open>i + 1\<close>, in the world left by the sends before it; its index, identity key and type
  are those of that event.
\<close>

theorem sequential_order:
  "length (fst (send_events_sequential post events cfg w)) = length events \<and>
   (\<forall>i<length events.
      fst (send_events_sequential post events cfg w) ! i =
        fst (send_event post (events ! i) (int i + 1) cfg
               (snd (send_events_sequential post (take i events) cfg w))) \<and>
      index (fst (send_events_sequential post events cfg w) ! i) = int i + 1 \<and>
      r_idcard (fst (send_events_sequential post events cfg w) ! i) = idcard (traits (events ! i)) \<and>
      r_type (fst (send_events_sequential post events cfg w) ! i) = type (events ! i))"
proof -
  have seq: "send_events_sequential post evs cfg w = send_loop post cfg (enumerate_from 1 evs) [] w"
    for evs
    by (simp add: send_events_sequential_def tqdm_def)
  have len: "length (fst (send_events_sequential post events cfg w)) = length events"
    by (simp add: seq send_loop_length)
  have nth: "fst (send_events_sequential post events cfg w) ! i =
        fst (send_event post (events ! i) (int i + 1) cfg
               (snd (send_events_sequential post (take i events) cfg w)))"
    if "i < length events" for i
    using send_loop_nth [OF that, of post cfg 1 w] by (simp add: seq add.commute)
  show ?thesis
    using len nth by (simp add: send_event_echo)
qed

theorem sequential_order_witness:
  "length (fst (send_events_sequential canned
             [event_with ''login'' ''A'', event_with ''purchase'' ''B''] Config
             [Response 200 ''ok'', Response 500 ''boom''])) = 2 \<and>
   index (fst (send_events_sequential canned
             [event_with ''login'' ''A'', event_with ''purchase'' ''B''] Config
             [Response 200 ''ok'', Response 500 ''boom'']) ! 1) = 2 \<and>
   r_idcard (fst (send_events_sequential canned
             [event_with ''login'' ''A'', event_with ''purchase'' ''B''] Config
             [Response 200 ''ok'', Response 500 ''boom'']) ! 1) = ''B'' \<and>
   r_type (fst (send_events_sequential canned
             [event_with ''login'' ''A'', event_with ''purchase'' ''B''] Config
             [Response 200 ''ok'', Response 500 ''boom'']) ! 1) = ''purchase''"
proof -
  have i: "(1::nat) < length [event_with ''login'' ''A'', event_with ''purchase'' ''B'']"
    by simp
  show ?thesis
    using sequential_order [of canned "[event_with ''login'' ''A'', event_with ''purchase'' ''B'']"
        Config "[Response 200 ''ok'', Response 500 ''boom'']"] i
    by (auto simp add: event_with_def)
qed

section \<open>Properties of event generation\<close>

lemma rand_in_range:
  "a \<le> b \<Longrightarrow> a \<le> fst (rand_in a b g) \<and> fst (rand_in a b g) \<le> b"
proof -
  assume ab: "a \<le> b"
  obtain r g' where d: "draw g = (r, g')" by (cases "draw g")
  have pos: "0 < b - a + 1" using ab by simp
  have ge: "0 \<le> int r mod (b - a + 1)" using pos by (rule pos_mod_sign)
  have lt: "int r mod (b - a + 1) < b - a + 1" using pos by (rule pos_mod_bound)
  have "fst (rand_in a b g) = a + int r mod (b - a + 1)" by (simp add: rand_in_def d)
  with ge lt show ?thesis by linarith
qed




lemma generate_event_total:
  assumes "idcard_pool \<noteq> []" and "length idcard_pool \<le> length old_idcard_pool"
  shows "\<exists>ev g'. generate_event i idcard_pool old_idcard_pool now fk g = Inr (ev, g')"
proof -
  have le: "(0::int) \<le> int (length idcard_pool) - 1"
    using assms(1) by (cases idcard_pool) simp_all
  from rand_in_range [OF le, of g]
  have "nat (fst (rand_in 0 (int (length idcard_pool) - 1) g)) < length idcard_pool"
    by linarith
  with assms(2) have "\<not> length old_idcard_pool \<le> nat (fst (rand_in 0 (int (length idcard_pool) - 1) g))"
    by linarith
  with le show ?thesis
    by (simp add: generate_event_def randint_def Let_def case_prod_beta)
qed













lemma print_statistics_total:
  "results \<noteq> [] \<Longrightarrow> \<exists>rep. print_statistics results events = Inr rep"
  by (simp add: print_statistics_def percent_def Let_def)

text \<open>
  Claim C9, as the code has it. \<open>generate_event\<close> returns an event for every index
  when the identity pool is not empty and the pool of old identity keys is at least as
  long; \<open>print_statistics\<close> returns its report for every non-empty list of outcomes and
  every list of events.
\<close>

theorem total_on_nonempty_inputs:
  "(idcard_pool \<noteq> [] \<and> length idcard_pool \<le> length old_idcard_pool \<longrightarrow>
      (\<exists>ev g'. generate_event i idcard_pool old_idcard_pool now fk g = Inr (ev, g'))) \<and>
   (results \<noteq> [] \<longrightarrow> (\<exists>rep. print_statistics results events = Inr rep))"
  using generate_event_total [of idcard_pool old_idcard_pool i now fk g]
    print_statistics_total [of results events]
  by blast

text \<open>
  Outside these conditions the operations raise: an empty pool makes \<open>random.randint(0, -1)\<close>
  raise \<open>ValueError\<close>, a shorter pool of old identity keys makes the lookup raise
  \<open>IndexError\<close>, and an empty list of outcomes makes the percentage raise
  \<open>ZeroDivisionError\<close>.
\<close>

theorem empty_inputs_fail_counterexample:
  "generate_event 1 [] [] (fixed_clock 1) (fixed_fakes 1) [] = Inl ValueError \<and>
   generate_event 1 [''A'', ''B''] [''a''] (fixed_clock 1) (fixed_fakes 1) [1] = Inl IndexError \<and>
   print_statistics [] [] = Inl ZeroDivisionError"
  by (simp add: generate_event_def randint_def rand_in_def print_statistics_def percent_def)

lemma make_pool_props:
  "lo \<le> hi \<Longrightarrow>
   length (fst (make_pool n lo hi g)) = n \<and> set (fst (make_pool n lo hi g)) \<subseteq> py_str ` {lo..hi}"
proof (induction n arbitrary: g)
  case 0
  show ?case by simp
next
  case (Suc n)
  obtain v g1 where v: "random_int lo hi g = (v, g1)" by (cases "random_int lo hi g")
  obtain rest g2 where rest: "make_pool n lo hi g1 = (rest, g2)" by (cases "make_pool n lo hi g1")
  from rand_in_range [OF Suc.prems, of g] v have "v \<in> {lo..hi}"
    by (simp add: random_int_def)
  with Suc.IH [OF Suc.prems, of g1] v rest show ?case by simp
qed

text \<open>
  Claim C10. The identity pool has as many entries as configured, each entry is the
  decimal string of an integer from 100000000000 to 100000000095, so the pool holds at
  most 96 distinct entries, and a pool of more than 96 entries has duplicates.
\<close>

theorem idcard_pool_at_most_96:
  "length (fst (make_idcard_pool cfg g)) = nat (NUM_UNIQUE_IDCARDS cfg) \<and>
   set (fst (make_idcard_pool cfg g)) \<subseteq> py_str ` {100000000000..100000000095} \<and>
   card (set (fst (make_idcard_pool cfg g))) \<le> 96 \<and>
   (96 < NUM_UNIQUE_IDCARDS cfg \<longrightarrow> \<not> distinct (fst (make_idcard_pool cfg g)))"
proof -
  let ?pool = "fst (make_idcard_pool cfg g)"
  have props: "length ?pool = nat (NUM_UNIQUE_IDCARDS cfg) \<and>
      set ?pool \<subseteq> py_str ` {100000000000..100000000095}"
    unfolding make_idcard_pool_def by (rule make_pool_props) simp
  have "card (set ?pool) \<le> card (py_str ` {100000000000..100000000095})"
    using props by (simp add: card_mono)
  also have "\<dots> \<le> card {100000000000..100000000095::int}"
    by (rule card_image_le) simp
  also have "\<dots> = 96" by simp
  finally have c: "card (set ?pool) \<le> 96" .
  have "\<not> distinct ?pool" if big: "96 < NUM_UNIQUE_IDCARDS cfg"
  proof
    assume "distinct ?pool"
    then have "card (set ?pool) = length ?pool" by (rule distinct_card)
    with c props big show False by simp
  qed
  with props c show ?thesis by blast
qed

theorem idcard_pool_at_most_96_witness:
  "96 < NUM_UNIQUE_IDCARDS Config \<and>
   length (fst (make_idcard_pool Config [])) = 700 \<and>
   card (set (fst (make_idcard_pool Config []))) \<le> 96 \<and>
   \<not> distinct (fst (make_idcard_pool Config []))"
  using idcard_pool_at_most_96 [of Config "[]"] by (simp add: Config_def)

theorem total_on_nonempty_inputs_witness:
  "[''100000000000''] \<noteq> [] \<and> length [''100000000000''] \<le> length [''100000000''] \<and>
   (\<exists>ev g'. generate_event 1 [''100000000000''] [''100000000''] (fixed_clock 1) (fixed_fakes 1)
              [] = Inr (ev, g')) \<and>
   [fst (send_event canned (event_with ''login'' ''A'') 1 Config [])] \<noteq> [] \<and>
   (\<exists>rep. print_statistics [fst (send_event canned (event_with ''login'' ''A'') 1 Config [])]
            [event_with ''login'' ''A''] = Inr rep)"
  using total_on_nonempty_inputs [of "[''100000000000'']" "[''100000000'']" 1 "fixed_clock 1"
      "fixed_fakes 1" "[]" "[fst (send_event canned (event_with ''login'' ''A'') 1 Config [])]"
      "[event_with ''login'' ''A'']"]
  by simp

section \<open>Properties of the statistics\<close>























end
